theory Spec2Isabelle
  imports Complex_Main
begin

text \<open>
  The audio pipeline of the repository: text to raw speech (tts\_service.py), raw speech to
  refined audio (audio\_refiner.py), and the entry points that chain the two
  (\_\_init\_\_.py, with utils.py). Each Python function is a function of the same name
  here. What the source takes from libraries, the file system, the network and the clock
  is a parameter of the function that uses it; an exception is a value on the left of a
  sum; a \<^verbatim>\<open>try\<close> block is a function of its own, named after its function with the
  suffix \<open>_try\<close>, and the \<^verbatim>\<open>except\<close> clause is the case distinction on its result.
\<close>

section \<open>Python values shared by the modules\<close>

text \<open>
  An exception is its class and the text that \<^verbatim>\<open>str(e)\<close> gives. Only subclasses of
  \<^verbatim>\<open>Exception\<close> are modelled: they are what the \<^verbatim>\<open>except Exception\<close> clauses of the
  source catch.
\<close>

datatype exc_type =
  FileNotFoundError | ValueError | KeyError | ZeroDivisionError | OSError | Exception

datatype exn = Raise exc_type string

fun str_exn :: "exn \<Rightarrow> string" where
  "str_exn (Raise _ m) = m"

text \<open>
  A sample buffer is a one-dimensional numpy array. Samples are real numbers, and the
  functions below read the arithmetic of the source as exact. Where a property depends
  on the rounding of floating point, which is the case for the levels that
  \<^verbatim>\<open>normalize_volume\<close> produces, the function is given a second time with the rounded
  operations as parameters (\<open>normalize_volume_float\<close>).
\<close>

type_synonym buffer = "real list"

text \<open>Python's \<^verbatim>\<open>round\<close>: to the nearest integer, a tie to the even one.\<close>

definition py_round :: "real \<Rightarrow> int" where
  "py_round x =
     (let f = \<lfloor>x\<rfloor>; d = x - of_int f
      in if d < 1 / 2 then f else if d > 1 / 2 then f + 1 else if even f then f else f + 1)"

text \<open>\<^verbatim>\<open>round(x, 2)\<close>.\<close>

definition round2 :: "real \<Rightarrow> real" where
  "round2 x = of_int (py_round (x * 100)) / 100"

section \<open>Configuration (the \<^verbatim>\<open>audio_refinement\<close> section of config.yaml)\<close>

text \<open>
  The configuration is a record: every recognised key is present. A missing key, which
  would raise \<^verbatim>\<open>KeyError\<close> at the place of the lookup, is excluded by the type.
\<close>

record noise_reduction_config =
  nr_enabled :: bool
  nr_strength :: real

record normalization_config =
  norm_enabled :: bool
  norm_target_db :: real

record enhancement_config =
  compression :: bool
  eq_boost :: bool

record output_config =
  out_sample_rate :: nat
  out_bit_depth :: int

record refinement_config =
  noise_reduction :: noise_reduction_config
  normalization :: normalization_config
  enhancement :: enhancement_config
  output_cfg :: output_config

section \<open>Log records of the refinement stages\<close>

datatype log_level = INFO | WARNING

datatype log_msg =
    NoiseReductionDisabled
  | ApplyingNoiseReduction real
  | NoiseReductionCompleted
  | NoiseReductionFailed string
  | VolumeNormalizationDisabled
  | NormalizingVolume real
  | RmsZeroSkipping
  | VolumeNormalized real
  | NormalizationFailed string
  | VoiceEnhancementDisabled
  | ApplyingCompression
  | EqBoostPlaceholder
  | VoiceEnhancementCompleted
  | EnhancementFailed string

type_synonym log = "(log_level \<times> log_msg) list"

section \<open>audio\_refiner.py: decoding\<close>

text \<open>
  pydub's \<^verbatim>\<open>AudioSegment\<close>: the array type code is \<^verbatim>\<open>'b'\<close>, \<^verbatim>\<open>'h'\<close> or \<^verbatim>\<open>'i'\<close> for
  samples of 8, 16 or 32 bits.
\<close>

datatype array_type = TC_b | TC_h | TC_i

fun iinfo_max :: "array_type \<Rightarrow> int" where
  "iinfo_max TC_b = 127"
| "iinfo_max TC_h = 32767"
| "iinfo_max TC_i = 2147483647"

fun iinfo_min :: "array_type \<Rightarrow> int" where
  "iinfo_min TC_b = - 128"
| "iinfo_min TC_h = - 32768"
| "iinfo_min TC_i = - 2147483648"

record audio_segment =
  channels :: nat
  frame_rate :: nat
  seg_array_type :: array_type
  array_of_samples :: "int list"

text \<open>Lines 93 to 96 of \<^verbatim>\<open>load_audio\<close>: the samples as floats, divided by the maximum.\<close>

definition normalize_samples :: "audio_segment \<Rightarrow> buffer" where
  "normalize_samples audio =
     (let audio_array = map real_of_int (array_of_samples audio)
      in map (\<lambda>x. x / real_of_int (iinfo_max (seg_array_type audio))) audio_array)"

text \<open>
  \<^verbatim>\<open>load_audio\<close>. \<^verbatim>\<open>AudioSegment.from_file\<close> and \<^verbatim>\<open>set_channels\<close> belong to pydub and are
  parameters. The log line divides the length by the sample rate, which raises for a
  rate of zero; every exception is logged and raised again.
\<close>

definition load_audio ::
  "(string \<Rightarrow> exn + audio_segment) \<Rightarrow> (audio_segment \<Rightarrow> nat \<Rightarrow> exn + audio_segment) \<Rightarrow>
   string \<Rightarrow> exn + (buffer \<times> nat)" where
  "load_audio from_file set_channels file_path =
     (case from_file file_path of
        Inl e \<Rightarrow> Inl e
      | Inr audio0 \<Rightarrow>
          (case (if channels audio0 > 1 then set_channels audio0 1 else Inr audio0) of
             Inl e \<Rightarrow> Inl e
           | Inr audio \<Rightarrow>
               (let sample_rate = frame_rate audio;
                    audio_array = normalize_samples audio
                in if sample_rate = 0
                   then Inl (Raise ZeroDivisionError ''division by zero'')
                   else Inr (audio_array, sample_rate))))"

section \<open>audio\_refiner.py: the refinement stages\<close>

subsection \<open>Noise reduction\<close>

text \<open>
  \<^verbatim>\<open>nr.reduce_noise(y, sr, prop_decrease, stationary=True)\<close> belongs to the noisereduce
  library and is a parameter, which may raise.
\<close>

type_synonym nr_lib = "buffer \<Rightarrow> nat \<Rightarrow> real \<Rightarrow> exn + buffer"

definition reduce_noise :: "nr_lib \<Rightarrow> refinement_config \<Rightarrow> buffer \<Rightarrow> nat \<Rightarrow> buffer \<times> log" where
  "reduce_noise nr rc audio_data sample_rate =
     (if \<not> nr_enabled (noise_reduction rc)
      then (audio_data, [(INFO, NoiseReductionDisabled)])
      else
        (let strength = nr_strength (noise_reduction rc);
             l = [(INFO, ApplyingNoiseReduction strength)]
         in case nr audio_data sample_rate strength of
              Inr reduced_noise \<Rightarrow> (reduced_noise, l @ [(INFO, NoiseReductionCompleted)])
            | Inl e \<Rightarrow> (audio_data, l @ [(WARNING, NoiseReductionFailed (str_exn e))])))"

subsection \<open>Volume normalization\<close>

definition np_mean :: "real list \<Rightarrow> real" where
  "np_mean xs = sum_list xs / real (length xs)"

definition np_max_abs :: "real list \<Rightarrow> real" where
  "np_max_abs xs = Max (set (map abs xs))"

text \<open>
  The body of the \<^verbatim>\<open>try\<close> block of \<^verbatim>\<open>normalize_volume\<close>, with the log written so far.
  The argument \<open>target_db\<close> is overwritten by the configured value in the first line.
  On an empty array \<^verbatim>\<open>np.mean\<close> gives nan (with a warning, no exception), the test
  \<^verbatim>\<open>rms == 0\<close> is false, and \<^verbatim>\<open>np.max\<close> of the empty product raises \<^verbatim>\<open>ValueError\<close>.
\<close>

definition normalize_volume_try ::
  "refinement_config \<Rightarrow> buffer \<Rightarrow> real \<Rightarrow> (exn + buffer) \<times> log" where
  "normalize_volume_try rc audio_data target_db0 =
     (let target_db = norm_target_db (normalization rc);
          l = [(INFO, NormalizingVolume target_db)]
      in if audio_data = []
         then (Inl (Raise ValueError
                 ''zero-size array to reduction operation maximum which has no identity''), l)
         else
           (let rms = sqrt (np_mean (map (\<lambda>x. x\<^sup>2) audio_data))
            in if rms = 0
               then (Inr audio_data, l @ [(WARNING, RmsZeroSkipping)])
               else
                 (let current_db = 20 * log 10 rms;
                      gain_db = target_db - current_db;
                      gain_linear = 10 powr (gain_db / 20);
                      normalized = map (\<lambda>x. x * gain_linear) audio_data;
                      max_val = np_max_abs normalized;
                      normalized' = (if max_val > 0.95
                                     then map (\<lambda>x. x * (0.95 / max_val)) normalized
                                     else normalized)
                  in (Inr normalized', l @ [(INFO, VolumeNormalized gain_db)]))))"

definition normalize_volume :: "refinement_config \<Rightarrow> buffer \<Rightarrow> real \<Rightarrow> buffer \<times> log" where
  "normalize_volume rc audio_data target_db =
     (if \<not> norm_enabled (normalization rc)
      then (audio_data, [(INFO, VolumeNormalizationDisabled)])
      else
        (case normalize_volume_try rc audio_data target_db of
           (Inr normalized, l) \<Rightarrow> (normalized, l)
         | (Inl e, l) \<Rightarrow> (audio_data, l @ [(WARNING, NormalizationFailed (str_exn e))])))"

subsection \<open>Volume normalization in floating point\<close>

text \<open>
  numpy computes \<^verbatim>\<open>normalize_volume\<close> in floating point: every operation returns the
  exact result rounded. The operations are parameters here: the square of an element
  (\<^verbatim>\<open>audio_data**2\<close>), \<^verbatim>\<open>np.mean\<close>, \<^verbatim>\<open>np.sqrt\<close>, \<^verbatim>\<open>np.log10\<close>, the product,
  difference, quotient and power of scalars, and the product of an element of an array
  with a scalar (\<^verbatim>\<open>audio_data * gain_linear\<close>).
\<close>

record float_ops =
  fl_square :: "real \<Rightarrow> real"
  fl_mean :: "real list \<Rightarrow> real"
  fl_sqrt :: "real \<Rightarrow> real"
  fl_log10 :: "real \<Rightarrow> real"
  fl_times :: "real \<Rightarrow> real \<Rightarrow> real"
  fl_minus :: "real \<Rightarrow> real \<Rightarrow> real"
  fl_divide :: "real \<Rightarrow> real \<Rightarrow> real"
  fl_power :: "real \<Rightarrow> real \<Rightarrow> real"
  fl_scale :: "real \<Rightarrow> real \<Rightarrow> real"

text \<open>The operations without rounding.\<close>

definition exact_ops :: float_ops where
  "exact_ops =
     \<lparr>fl_square = (\<lambda>x. x\<^sup>2), fl_mean = np_mean, fl_sqrt = sqrt, fl_log10 = log 10,
      fl_times = (\<lambda>a b. a * b), fl_minus = (\<lambda>a b. a - b), fl_divide = (\<lambda>a b. a / b),
      fl_power = (\<lambda>a b. a powr b), fl_scale = (\<lambda>x c. x * c)\<rparr>"

text \<open>Line 162: \<^verbatim>\<open>rms = np.sqrt(np.mean(audio_data**2))\<close>.\<close>

definition float_rms :: "float_ops \<Rightarrow> buffer \<Rightarrow> real" where
  "float_rms ops audio_data = fl_sqrt ops (fl_mean ops (map (fl_square ops) audio_data))"

text \<open>Lines 169 and 172: \<^verbatim>\<open>current_db\<close> and \<^verbatim>\<open>gain_db\<close>.\<close>

definition float_gain_db :: "float_ops \<Rightarrow> real \<Rightarrow> real \<Rightarrow> real" where
  "float_gain_db ops target_db rms_value =
     (let current_db = fl_times ops 20 (fl_log10 ops rms_value)
      in fl_minus ops target_db current_db)"

text \<open>Line 173: \<^verbatim>\<open>gain_linear = 10 ** (gain_db / 20)\<close>.\<close>

definition float_gain_linear :: "float_ops \<Rightarrow> real \<Rightarrow> real" where
  "float_gain_linear ops gain_db = fl_power ops 10 (fl_divide ops gain_db 20)"

text \<open>Line 176: the buffer after the gain.\<close>

definition float_gained :: "float_ops \<Rightarrow> real \<Rightarrow> buffer \<Rightarrow> buffer" where
  "float_gained ops target_db audio_data =
     (let gain_linear =
            float_gain_linear ops (float_gain_db ops target_db (float_rms ops audio_data))
      in map (\<lambda>x. fl_scale ops x gain_linear) audio_data)"

text \<open>Lines 179 to 181: the guard against clipping.\<close>

definition float_clip :: "float_ops \<Rightarrow> buffer \<Rightarrow> buffer" where
  "float_clip ops normalized =
     (let max_val = np_max_abs normalized
      in if max_val > 0.95
         then map (\<lambda>x. fl_scale ops x (fl_divide ops 0.95 max_val)) normalized
         else normalized)"

text \<open>
  The \<^verbatim>\<open>try\<close> block and the function, as \<open>normalize_volume_try\<close> and \<open>normalize_volume\<close>
  above, with the operations of \<open>ops\<close>.
\<close>

definition normalize_volume_try_float ::
  "float_ops \<Rightarrow> refinement_config \<Rightarrow> buffer \<Rightarrow> real \<Rightarrow> (exn + buffer) \<times> log" where
  "normalize_volume_try_float ops rc audio_data target_db0 =
     (let target_db = norm_target_db (normalization rc);
          l = [(INFO, NormalizingVolume target_db)]
      in if audio_data = []
         then (Inl (Raise ValueError
                 ''zero-size array to reduction operation maximum which has no identity''), l)
         else
           (let rms = float_rms ops audio_data
            in if rms = 0
               then (Inr audio_data, l @ [(WARNING, RmsZeroSkipping)])
               else
                 (let gain_db = float_gain_db ops target_db rms;
                      normalized = float_gained ops target_db audio_data;
                      normalized' = float_clip ops normalized
                  in (Inr normalized', l @ [(INFO, VolumeNormalized gain_db)]))))"

definition normalize_volume_float ::
  "float_ops \<Rightarrow> refinement_config \<Rightarrow> buffer \<Rightarrow> real \<Rightarrow> buffer \<times> log" where
  "normalize_volume_float ops rc audio_data target_db =
     (if \<not> norm_enabled (normalization rc)
      then (audio_data, [(INFO, VolumeNormalizationDisabled)])
      else
        (case normalize_volume_try_float ops rc audio_data target_db of
           (Inr normalized, l) \<Rightarrow> (normalized, l)
         | (Inl e, l) \<Rightarrow> (audio_data, l @ [(WARNING, NormalizationFailed (str_exn e))])))"

subsection \<open>Voice enhancement\<close>

text \<open>
  numpy's assignment through a boolean mask, \<^verbatim>\<open>a[mask] = values\<close>: the positions where
  the mask is true receive the values in order.
\<close>

fun masked_assign :: "bool list \<Rightarrow> 'a list \<Rightarrow> 'a list \<Rightarrow> 'a list" where
  "masked_assign (True # ms) (x # xs) (v # vs) = v # masked_assign ms xs vs"
| "masked_assign (False # ms) (x # xs) vs = x # masked_assign ms xs vs"
| "masked_assign ms xs vs = xs"

text \<open>\<^verbatim>\<open>a[mask]\<close>: the elements where the mask is true.\<close>

definition masked_select :: "bool list \<Rightarrow> 'a list \<Rightarrow> 'a list" where
  "masked_select ms xs = map snd (filter fst (zip ms xs))"

text \<open>
  The body of the \<^verbatim>\<open>try\<close> block of \<^verbatim>\<open>enhance_voice\<close>. On an array of floats none of
  its operations raises.
\<close>

definition enhance_voice_try ::
  "enhancement_config \<Rightarrow> buffer \<Rightarrow> (exn + buffer) \<times> log" where
  "enhance_voice_try enhancement_config audio_data =
     (let enhanced = audio_data;
          (enhanced1, l1) =
            (if compression enhancement_config
             then
               (let threshold = 0.3;
                    ratio = 3.0;
                    mask = map (\<lambda>x. \<bar>x\<bar> > threshold) enhanced
                in (masked_assign mask enhanced
                      (map (\<lambda>x. sgn x * (threshold + (\<bar>x\<bar> - threshold) / ratio))
                         (masked_select mask enhanced)),
                    [(INFO, ApplyingCompression)]))
             else (enhanced, []));
          l2 = (if eq_boost enhancement_config then [(INFO, EqBoostPlaceholder)] else [])
      in (Inr enhanced1, l1 @ l2 @ [(INFO, VoiceEnhancementCompleted)]))"

definition enhance_voice :: "refinement_config \<Rightarrow> buffer \<Rightarrow> nat \<Rightarrow> buffer \<times> log" where
  "enhance_voice rc audio_data sample_rate =
     (let enhancement_config = enhancement rc
      in if \<not> (compression enhancement_config \<or> eq_boost enhancement_config)
         then (audio_data, [(INFO, VoiceEnhancementDisabled)])
         else
           (case enhance_voice_try enhancement_config audio_data of
              (Inr enhanced, l) \<Rightarrow> (enhanced, l)
            | (Inl e, l) \<Rightarrow> (audio_data, l @ [(WARNING, EnhancementFailed (str_exn e))])))"

subsection \<open>Saving, with resampling\<close>

datatype subtype = PCM_16 | PCM_24 | PCM_32

text \<open>
  The dictionary that \<^verbatim>\<open>save_refined\<close> returns. The key \<^verbatim>\<open>sample_rate\<close> is absent from
  the dictionary of a failure.
\<close>

record save_result =
  sv_success :: bool
  sv_file_path :: "string option"
  sv_file_size :: nat
  sv_duration :: real
  sv_sample_rate :: "nat option"
  sv_error :: "string option"

text \<open>
  What the refiner takes from libraries and from the operating system: pydub's decoder,
  noisereduce, \<^verbatim>\<open>Path.mkdir\<close>, \<^verbatim>\<open>scipy.signal.resample\<close>, \<^verbatim>\<open>soundfile.write\<close>,
  \<^verbatim>\<open>os.path.getsize\<close>, and the time elapsed on the clock since the start of the pipeline.
\<close>

record refiner_io =
  from_file :: "string \<Rightarrow> exn + audio_segment"
  set_channels :: "audio_segment \<Rightarrow> nat \<Rightarrow> exn + audio_segment"
  nr_reduce_noise :: nr_lib
  mkdir_parent :: "string \<Rightarrow> exn + unit"
  signal_resample :: "buffer \<Rightarrow> nat \<Rightarrow> exn + buffer"
  sf_write :: "string \<Rightarrow> buffer \<Rightarrow> nat \<Rightarrow> subtype \<Rightarrow> exn + unit"
  getsize :: "string \<Rightarrow> exn + nat"
  elapsed :: real

text \<open>Sequencing of steps that may raise.\<close>

definition bind_exn :: "exn + 'a \<Rightarrow> ('a \<Rightarrow> exn + 'b) \<Rightarrow> exn + 'b" where
  "bind_exn m f = (case m of Inl e \<Rightarrow> Inl e | Inr a \<Rightarrow> f a)"

text \<open>
  Line 259: \<^verbatim>\<open>int(len(audio_data) * target_sr / sample_rate)\<close>. The quotient is not
  negative, so the truncation of \<^verbatim>\<open>int\<close> is the floor. (The float quotient of two
  integers below \<open>2^53\<close> has the floor of the exact quotient.)
\<close>

definition num_samples :: "nat \<Rightarrow> nat \<Rightarrow> nat \<Rightarrow> nat" where
  "num_samples len target_sr sample_rate =
     nat \<lfloor>real (len * target_sr) / real sample_rate\<rfloor>"

text \<open>Lines 254 to 261 of \<^verbatim>\<open>save_refined\<close>: the resampling, when the rates differ.\<close>

definition save_refined_resample ::
  "(buffer \<Rightarrow> nat \<Rightarrow> exn + buffer) \<Rightarrow> nat \<Rightarrow> buffer \<Rightarrow> nat \<Rightarrow> exn + (buffer \<times> nat)" where
  "save_refined_resample resample target_sr audio_data sample_rate =
     (if sample_rate \<noteq> target_sr
      then
        (if sample_rate = 0
         then Inl (Raise ZeroDivisionError ''division by zero'')
         else
           bind_exn (resample audio_data (num_samples (length audio_data) target_sr sample_rate))
             (\<lambda>resampled. Inr (resampled, target_sr)))
      else Inr (audio_data, sample_rate))"

definition save_refined_try ::
  "refiner_io \<Rightarrow> refinement_config \<Rightarrow> buffer \<Rightarrow> nat \<Rightarrow> string \<Rightarrow> exn + save_result" where
  "save_refined_try io rc audio_data0 sample_rate0 output_path =
     bind_exn (mkdir_parent io output_path) (\<lambda>_.
       let target_sr = out_sample_rate (output_cfg rc);
           bit_depth = out_bit_depth (output_cfg rc)
       in bind_exn (save_refined_resample (signal_resample io) target_sr audio_data0 sample_rate0)
            (\<lambda>(audio_data, sample_rate).
               let subtype = (if bit_depth = 16 then PCM_16
                              else if bit_depth = 24 then PCM_24 else PCM_32)
               in bind_exn (sf_write io output_path audio_data sample_rate subtype) (\<lambda>_.
                  bind_exn (getsize io output_path) (\<lambda>file_size.
                    if sample_rate = 0
                    then Inl (Raise ZeroDivisionError ''division by zero'')
                    else
                      (let duration = real (length audio_data) / real sample_rate
                       in Inr \<lparr>sv_success = True, sv_file_path = Some output_path,
                                sv_file_size = file_size, sv_duration = duration,
                                sv_sample_rate = Some sample_rate, sv_error = None\<rparr>)))))"

definition save_refined ::
  "refiner_io \<Rightarrow> refinement_config \<Rightarrow> buffer \<Rightarrow> nat \<Rightarrow> string \<Rightarrow> save_result" where
  "save_refined io rc audio_data sample_rate output_path =
     (case save_refined_try io rc audio_data sample_rate output_path of
        Inr r \<Rightarrow> r
      | Inl e \<Rightarrow>
          (let error_msg = ''Error saving refined audio: '' @ str_exn e
           in \<lparr>sv_success = False, sv_file_path = None, sv_file_size = 0, sv_duration = 0,
               sv_sample_rate = None, sv_error = Some error_msg\<rparr>))"

subsection \<open>The refinement pipeline\<close>

record refine_metadata =
  input_duration :: real
  output_duration :: real
  md_sample_rate :: nat
  processing_time :: real
  md_file_size :: nat

record refine_result =
  rf_success :: bool
  rf_refined_audio_path :: "string option"
  rf_metadata :: "refine_metadata option"
  rf_error :: "string option"

text \<open>
  \<^verbatim>\<open>process_pipeline\<close> returns the dictionary of \<^verbatim>\<open>save_refined\<close> itself when the save
  failed, and a dictionary of its own otherwise.
\<close>

datatype pipeline_result = SaveDict save_result | PipelineDict refine_result

fun result_success :: "pipeline_result \<Rightarrow> bool" where
  "result_success (SaveDict r) = sv_success r"
| "result_success (PipelineDict r) = rf_success r"

fun result_error :: "pipeline_result \<Rightarrow> string option" where
  "result_error (SaveDict r) = sv_error r"
| "result_error (PipelineDict r) = rf_error r"

text \<open>The three stages in the order of \<^verbatim>\<open>process_pipeline\<close>, steps 2 to 4.\<close>

definition refine_stages :: "nr_lib \<Rightarrow> refinement_config \<Rightarrow> buffer \<Rightarrow> nat \<Rightarrow> buffer \<times> log" where
  "refine_stages nr rc audio_data0 sample_rate =
     (let (audio_data1, l1) = reduce_noise nr rc audio_data0 sample_rate;
          (audio_data2, l2) =
             normalize_volume rc audio_data1 (norm_target_db (normalization rc));
          (audio_data3, l3) = enhance_voice rc audio_data2 sample_rate
      in (audio_data3, l1 @ l2 @ l3))"

definition process_pipeline_try ::
  "refiner_io \<Rightarrow> refinement_config \<Rightarrow> string \<Rightarrow> string \<Rightarrow> exn + pipeline_result" where
  "process_pipeline_try io rc input_path output_path =
     bind_exn (load_audio (from_file io) (set_channels io) input_path)
       (\<lambda>(audio_data0, sample_rate).
          let input_duration = real (length audio_data0) / real sample_rate;
              audio_data = fst (refine_stages (nr_reduce_noise io) rc audio_data0 sample_rate);
              save_result = save_refined io rc audio_data sample_rate output_path
          in if \<not> sv_success save_result
             then Inr (SaveDict save_result)
             else
               (case sv_sample_rate save_result of
                  None \<Rightarrow> Inl (Raise KeyError ''sample_rate'')
                | Some sr \<Rightarrow>
                    (let processing_time = elapsed io
                     in Inr (PipelineDict
                          \<lparr>rf_success = True,
                           rf_refined_audio_path = sv_file_path save_result,
                           rf_metadata = Some
                             \<lparr>input_duration = round2 input_duration,
                              output_duration = round2 (sv_duration save_result),
                              md_sample_rate = sr,
                              processing_time = round2 processing_time,
                              md_file_size = sv_file_size save_result\<rparr>,
                           rf_error = None\<rparr>))))"

definition process_pipeline ::
  "refiner_io \<Rightarrow> refinement_config \<Rightarrow> string \<Rightarrow> string \<Rightarrow> pipeline_result" where
  "process_pipeline io rc input_path output_path =
     (case process_pipeline_try io rc input_path output_path of
        Inr r \<Rightarrow> r
      | Inl e \<Rightarrow>
          (let error_msg = ''Refinement pipeline failed: '' @ str_exn e
           in PipelineDict \<lparr>rf_success = False, rf_refined_audio_path = None,
                rf_metadata = None, rf_error = Some error_msg\<rparr>))"

section \<open>utils.py\<close>

text \<open>A Python \<^verbatim>\<open>str\<close> is the list of its code points; \<^verbatim>\<open>len\<close> counts them.\<close>

type_synonym py_str = "nat list"

text \<open>The code points for which \<^verbatim>\<open>str.isspace\<close> holds, which \<^verbatim>\<open>str.strip\<close> removes.\<close>

definition isspace :: "nat \<Rightarrow> bool" where
  "isspace c \<longleftrightarrow>
     (9 \<le> c \<and> c \<le> 13) \<or> (28 \<le> c \<and> c \<le> 32) \<or> c = 133 \<or> c = 160 \<or> c = 5760 \<or>
     (8192 \<le> c \<and> c \<le> 8202) \<or> c = 8232 \<or> c = 8233 \<or> c = 8239 \<or> c = 8287 \<or> c = 12288"

definition strip :: "py_str \<Rightarrow> py_str" where
  "strip text = rev (dropWhile isspace (rev (dropWhile isspace text)))"

text \<open>The argument \<open>text\<close> of the entry points is any Python value.\<close>

datatype text_arg = Str py_str | NotStr

text \<open>Decimal text of an integer, as an f-string prints it.\<close>

definition digit_char :: "nat \<Rightarrow> char" where
  "digit_char d = ''0123456789'' ! d"

fun str_nat :: "nat \<Rightarrow> string" where
  "str_nat n =
     (if n < 10 then [digit_char n] else str_nat (n div 10) @ [digit_char (n mod 10)])"

definition str_int :: "int \<Rightarrow> string" where
  "str_int i = (if i < 0 then CHR ''-'' # str_nat (nat (- i)) else str_nat (nat i))"

definition validate_text_input :: "text_arg \<Rightarrow> int \<Rightarrow> int \<Rightarrow> exn + py_str" where
  "validate_text_input text0 min_length max_length =
     (case text0 of
        NotStr \<Rightarrow> Inl (Raise ValueError ''Text must be a non-empty string'')
      | Str t0 \<Rightarrow>
          if t0 = [] then Inl (Raise ValueError ''Text must be a non-empty string'')
          else
            (let text = strip t0
             in if int (length text) < min_length
                then Inl (Raise ValueError
                       (''Text too short. Minimum '' @ str_int min_length
                          @ '' characters required''))
                else if int (length text) > max_length
                then Inl (Raise ValueError
                       (''Text too long. Maximum '' @ str_int max_length
                          @ '' characters allowed''))
                else Inr text))"

text \<open>\<^verbatim>\<open>load_env_variables\<close>, from the value of \<^verbatim>\<open>os.getenv('ELEVENLABS_API_KEY')\<close>.\<close>

definition load_env_variables :: "string option \<Rightarrow> exn + string" where
  "load_env_variables api_key =
     (case api_key of
        None \<Rightarrow> Inl (Raise ValueError
          (''ELEVENLABS_API_KEY not found in environment variables. ''
             @ ''Please create a .env file with your API key.''))
      | Some k \<Rightarrow>
          if k = [] then Inl (Raise ValueError
            (''ELEVENLABS_API_KEY not found in environment variables. ''
               @ ''Please create a .env file with your API key.''))
          else Inr k)"

text \<open>
  The configuration file as a whole. \<^verbatim>\<open>settings\<close> is read with \<^verbatim>\<open>dict.get\<close> and a
  default, so its keys are optional.
\<close>

record paths_config =
  raw_audio :: string
  refined_audio :: string
  logs :: string

record settings_dict =
  stability :: "real option"
  similarity_boost :: "real option"
  style :: "real option"
  use_speaker_boost :: "bool option"

record elevenlabs_config =
  model :: string
  default_voice_id :: string
  settings :: settings_dict

record config =
  paths :: paths_config
  elevenlabs :: elevenlabs_config
  audio_refinement :: refinement_config

text \<open>
  What opening and parsing the configuration file gives: the file is missing, the YAML
  does not parse, another exception, or the configuration.
\<close>

datatype yaml_read = FileMissing | YAMLError string | OtherFailure exn | Loaded config

definition load_config :: "(string \<Rightarrow> yaml_read) \<Rightarrow> string \<Rightarrow> exn + config" where
  "load_config read_yaml config_path =
     (case read_yaml config_path of
        Loaded config \<Rightarrow> Inr config
      | FileMissing \<Rightarrow> Inl (Raise FileNotFoundError (''Config file not found: '' @ config_path))
      | YAMLError e \<Rightarrow> Inl (Raise ValueError (''Error parsing config file: '' @ e))
      | OtherFailure e \<Rightarrow> Inl e)"

text \<open>\<^verbatim>\<open>setup_directories\<close>: the three directories are made in turn, by \<^verbatim>\<open>Path.mkdir\<close>.\<close>

fun mkdir_each :: "(string \<Rightarrow> exn + unit) \<Rightarrow> string list \<Rightarrow> exn + unit" where
  "mkdir_each mkdir [] = Inr ()"
| "mkdir_each mkdir (directory # directories) =
     bind_exn (mkdir directory) (\<lambda>_. mkdir_each mkdir directories)"

definition setup_directories :: "(string \<Rightarrow> exn + unit) \<Rightarrow> config \<Rightarrow> exn + unit" where
  "setup_directories mkdir config =
     (let directories =
            [raw_audio (paths config), refined_audio (paths config), logs (paths config)]
      in mkdir_each mkdir directories)"

section \<open>tts\_service.py\<close>

type_synonym bytes = "nat list"

record voice_settings =
  vs_stability :: real
  vs_similarity_boost :: real
  vs_style :: real
  vs_use_speaker_boost :: bool

text \<open>
  What the service takes from the ElevenLabs client and from the operating system: the
  construction of the client, \<^verbatim>\<open>voices.get_all\<close> (the number of voices),
  \<^verbatim>\<open>text_to_speech.convert\<close> with the joined bytes, \<^verbatim>\<open>Path.mkdir\<close>, the writing of the
  file, \<^verbatim>\<open>os.path.getsize\<close>, and the time the generation took.
\<close>

record tts_io =
  new_client :: "string \<Rightarrow> exn + unit"
  voices_get_all :: "exn + nat"
  convert :: "string \<Rightarrow> py_str \<Rightarrow> string \<Rightarrow> voice_settings \<Rightarrow> exn + bytes"
  tts_mkdir_parent :: "string \<Rightarrow> exn + unit"
  write_bytes :: "string \<Rightarrow> bytes \<Rightarrow> exn + unit"
  tts_getsize :: "string \<Rightarrow> exn + nat"
  generation_elapsed :: real

text \<open>The fields of an \<^verbatim>\<open>ElevenLabsTTS\<close> object that \<^verbatim>\<open>__init__\<close> sets from the configuration.\<close>

record elevenlabs_tts =
  tts_api_key :: string
  tts_model :: string
  tts_default_voice_id :: string
  tts_voice_settings :: settings_dict

definition tts_init :: "tts_io \<Rightarrow> string \<Rightarrow> config \<Rightarrow> exn + elevenlabs_tts" where
  "tts_init io api_key config =
     bind_exn (new_client io api_key) (\<lambda>_.
       Inr \<lparr>tts_api_key = api_key,
            tts_model = model (elevenlabs config),
            tts_default_voice_id = default_voice_id (elevenlabs config),
            tts_voice_settings = settings (elevenlabs config)\<rparr>)"

definition validate_api_key :: "tts_io \<Rightarrow> bool" where
  "validate_api_key io = (case voices_get_all io of Inr voices \<Rightarrow> True | Inl e \<Rightarrow> False)"

record gen_metadata =
  gm_voice_id :: string
  gm_text_length :: nat
  gm_generation_time :: real
  gm_audio_size :: nat

record gen_result =
  gen_success :: bool
  gen_audio_data :: "bytes option"
  gen_meta :: "gen_metadata option"
  gen_error :: "string option"

text \<open>\<^verbatim>\<open>dict.get(key, default)\<close> on an optional key.\<close>

definition get_or :: "'a option \<Rightarrow> 'a \<Rightarrow> 'a" where
  "get_or v d = (case v of Some x \<Rightarrow> x | None \<Rightarrow> d)"

text \<open>
  \<^verbatim>\<open>generate_audio\<close>. The construction of the \<^verbatim>\<open>VoiceSettings\<close> object is taken not to
  raise; what the call of the service raises is in the result of \<open>convert\<close>.
\<close>

definition generate_audio ::
  "tts_io \<Rightarrow> elevenlabs_tts \<Rightarrow> py_str \<Rightarrow> string option \<Rightarrow> settings_dict option \<Rightarrow> gen_result" where
  "generate_audio io self text voice_id0 settings0 =
     (let voice_id = (case voice_id0 of None \<Rightarrow> tts_default_voice_id self | Some v \<Rightarrow> v);
          settings = (case settings0 of None \<Rightarrow> tts_voice_settings self | Some st \<Rightarrow> st);
          voice_settings_obj =
            \<lparr>vs_stability = get_or (stability settings) 0.6,
             vs_similarity_boost = get_or (similarity_boost settings) 0.8,
             vs_style = get_or (style settings) 0.4,
             vs_use_speaker_boost = get_or (use_speaker_boost settings) True\<rparr>
      in case convert io voice_id text (tts_model self) voice_settings_obj of
           Inr audio_data \<Rightarrow>
             (let generation_time = generation_elapsed io
              in \<lparr>gen_success = True, gen_audio_data = Some audio_data,
                  gen_meta = Some \<lparr>gm_voice_id = voice_id, gm_text_length = length text,
                                   gm_generation_time = round2 generation_time,
                                   gm_audio_size = length audio_data\<rparr>,
                  gen_error = None\<rparr>)
         | Inl e \<Rightarrow>
             (let error_msg = ''Error generating audio: '' @ str_exn e
              in \<lparr>gen_success = False, gen_audio_data = None, gen_meta = None,
                  gen_error = Some error_msg\<rparr>))"

record tts_save_result =
  ts_success :: bool
  ts_file_path :: "string option"
  ts_file_size :: nat
  ts_error :: "string option"

definition save_audio :: "tts_io \<Rightarrow> bytes \<Rightarrow> string \<Rightarrow> tts_save_result" where
  "save_audio io audio_data output_path =
     (case bind_exn (tts_mkdir_parent io output_path) (\<lambda>_.
             bind_exn (write_bytes io output_path audio_data) (\<lambda>_.
               tts_getsize io output_path)) of
        Inr file_size \<Rightarrow>
          \<lparr>ts_success = True, ts_file_path = Some output_path, ts_file_size = file_size,
           ts_error = None\<rparr>
      | Inl e \<Rightarrow>
          (let error_msg = ''Error saving audio: '' @ str_exn e
           in \<lparr>ts_success = False, ts_file_path = None, ts_file_size = 0,
               ts_error = Some error_msg\<rparr>))"

record tts_metadata =
  tm_voice_id :: string
  tm_text_length :: nat
  tm_generation_time :: real
  tm_audio_size :: nat
  tm_file_size :: nat
  tm_output_path :: string

record combined_result =
  cb_success :: bool
  cb_file_path :: "string option"
  cb_metadata :: tts_metadata
  cb_error :: "string option"

text \<open>
  \<^verbatim>\<open>generate_and_save\<close> returns the dictionary of the generation or of the save when that
  step failed, and the combined dictionary otherwise.
\<close>

datatype tts_result = GenDict gen_result | SaveAudioDict tts_save_result | CombinedDict combined_result

fun tts_success :: "tts_result \<Rightarrow> bool" where
  "tts_success (GenDict r) = gen_success r"
| "tts_success (SaveAudioDict r) = ts_success r"
| "tts_success (CombinedDict r) = cb_success r"

fun tts_error :: "tts_result \<Rightarrow> string option" where
  "tts_error (GenDict r) = gen_error r"
| "tts_error (SaveAudioDict r) = ts_error r"
| "tts_error (CombinedDict r) = cb_error r"

text \<open>
  The generation dictionary of a success holds the audio and the metadata; a lookup
  that would fail raises to the caller, as nothing in \<^verbatim>\<open>generate_and_save\<close> catches it.
\<close>

definition generate_and_save ::
  "tts_io \<Rightarrow> elevenlabs_tts \<Rightarrow> py_str \<Rightarrow> string \<Rightarrow> string option \<Rightarrow> settings_dict option \<Rightarrow>
   exn + tts_result" where
  "generate_and_save io self text output_path voice_id settings0 =
     (let gen_result = generate_audio io self text voice_id settings0
      in if \<not> gen_success gen_result then Inr (GenDict gen_result)
         else
           (case (gen_audio_data gen_result, gen_meta gen_result) of
              (Some audio_data, Some md) \<Rightarrow>
                (let save_result = save_audio io audio_data output_path
                 in if \<not> ts_success save_result then Inr (SaveAudioDict save_result)
                    else Inr (CombinedDict
                      \<lparr>cb_success = True,
                       cb_file_path = ts_file_path save_result,
                       cb_metadata =
                         \<lparr>tm_voice_id = gm_voice_id md, tm_text_length = gm_text_length md,
                          tm_generation_time = gm_generation_time md,
                          tm_audio_size = gm_audio_size md,
                          tm_file_size = ts_file_size save_result,
                          tm_output_path = output_path\<rparr>,
                       cb_error = None\<rparr>))
            | _ \<Rightarrow> Inl (Raise KeyError ''metadata'')))"

section \<open>\_\_init\_\_.py: the complete pipeline\<close>

record pipeline_metadata =
  pm_text :: py_str
  pm_text_length :: nat
  pm_voice_id :: string
  pm_generation_time :: real
  pm_refinement_time :: real
  pm_total_time :: real
  pm_raw_size_mb :: real
  pm_refined_size_mb :: real
  pm_duration :: real
  pm_sample_rate :: nat

record audio_result =
  success :: bool
  res_raw_audio :: "string option"
  res_refined_audio :: "string option"
  metadata :: "pipeline_metadata option"
  error :: "string option"

text \<open>
  The calls that \<^verbatim>\<open>generate_refined_audio\<close> makes are recorded in order. Of these,
  \<^verbatim>\<open>validate_api_key\<close> and \<^verbatim>\<open>generate_and_save\<close> are the ones that reach the network.
\<close>

datatype event =
    EvLoadConfig | EvSetupLogging | EvSetupDirectories | EvLoadEnvVariables
  | EvValidateTextInput | EvTTSInit | EvValidateApiKey | EvGenerateAndSave
  | EvRefinerInit | EvProcessPipeline

type_synonym 'a traced = "(exn + 'a) \<times> event list"

definition call :: "event \<Rightarrow> exn + 'a \<Rightarrow> 'a traced" where
  "call ev r = (r, [ev])"

definition then_do :: "'a traced \<Rightarrow> ('a \<Rightarrow> 'b traced) \<Rightarrow> 'b traced" where
  "then_do m f =
     (case m of
        (Inl e, tr) \<Rightarrow> (Inl e, tr)
      | (Inr a, tr) \<Rightarrow> (case f a of (r, tr') \<Rightarrow> (r, tr @ tr')))"

definition done_with :: "exn + 'a \<Rightarrow> 'a traced" where
  "done_with r = (r, [])"

text \<open>
  What the pipeline takes from its surroundings: the reading of the configuration file,
  \<^verbatim>\<open>setup_logging\<close> (the handlers of the logging library), \<^verbatim>\<open>Path.mkdir\<close>, the API key
  of the environment, the time stamp of \<^verbatim>\<open>datetime.now()\<close>,
  \<^verbatim>\<open>os.path.join\<close>, the surroundings of the two services, the search for ffmpeg in the
  constructor of \<^verbatim>\<open>AudioRefiner\<close>, and the total time elapsed.
\<close>

record pipeline_io =
  read_yaml :: "string \<Rightarrow> yaml_read"
  setup_logging :: "config \<Rightarrow> exn + unit"
  path_mkdir :: "string \<Rightarrow> exn + unit"
  getenv_api_key :: "string option"
  timestamp :: string
  path_join :: "string \<Rightarrow> string \<Rightarrow> string"
  tts_env :: tts_io
  configure_ffmpeg :: "config \<Rightarrow> exn + unit"
  refiner_env :: refiner_io
  total_elapsed :: real

text \<open>
  The last step of the body: the record of a success, from the two dictionaries. The
  lookups cannot fail on the dictionaries of a success; on any other they raise.
\<close>

definition complete_result ::
  "pipeline_io \<Rightarrow> py_str \<Rightarrow> string \<Rightarrow> string \<Rightarrow> tts_result \<Rightarrow> pipeline_result \<Rightarrow>
   exn + audio_result" where
  "complete_result io text raw_audio_path refined_audio_path tts_result refine_result =
     (let total_time = total_elapsed io
      in case (tts_result, refine_result) of
           (CombinedDict t, PipelineDict r) \<Rightarrow>
             (case rf_metadata r of
                Some rm \<Rightarrow>
                  Inr \<lparr>success = True,
                       res_raw_audio = Some raw_audio_path,
                       res_refined_audio = Some refined_audio_path,
                       metadata = Some
                         \<lparr>pm_text = text,
                          pm_text_length = length text,
                          pm_voice_id = tm_voice_id (cb_metadata t),
                          pm_generation_time = tm_generation_time (cb_metadata t),
                          pm_refinement_time = processing_time rm,
                          pm_total_time = round2 total_time,
                          pm_raw_size_mb =
                            round2 (real (tm_file_size (cb_metadata t)) / (1024 * 1024)),
                          pm_refined_size_mb =
                            round2 (real (md_file_size rm) / (1024 * 1024)),
                          pm_duration = output_duration rm,
                          pm_sample_rate = md_sample_rate rm\<rparr>,
                       error = None\<rparr>
              | None \<Rightarrow> Inl (Raise KeyError ''metadata''))
         | _ \<Rightarrow> Inl (Raise KeyError ''metadata''))"

text \<open>The body of the \<^verbatim>\<open>try\<close> block of \<^verbatim>\<open>generate_refined_audio\<close>.\<close>

definition generate_refined_audio_try ::
  "pipeline_io \<Rightarrow> text_arg \<Rightarrow> string option \<Rightarrow> string option \<Rightarrow> string \<Rightarrow> audio_result traced" where
  "generate_refined_audio_try io text0 voice_id output_name0 config_path =
     then_do (call EvLoadConfig (load_config (read_yaml io) config_path)) (\<lambda>config.
     then_do (call EvSetupLogging (setup_logging io config)) (\<lambda>_.
     then_do (call EvSetupDirectories (setup_directories (path_mkdir io) config)) (\<lambda>_.
     then_do (call EvLoadEnvVariables (load_env_variables (getenv_api_key io))) (\<lambda>api_key.
     then_do (call EvValidateTextInput (validate_text_input text0 1 5000)) (\<lambda>text.
       let output_name = (case output_name0 of None \<Rightarrow> ''audio_'' @ timestamp io | Some n \<Rightarrow> n);
           raw_audio_path = path_join io (raw_audio (paths config)) (output_name @ ''.mp3'');
           refined_audio_path =
             path_join io (refined_audio (paths config)) (output_name @ ''.wav'')
       in
     then_do (call EvTTSInit (tts_init (tts_env io) api_key config)) (\<lambda>tts.
     then_do (call EvValidateApiKey (Inr (validate_api_key (tts_env io)))) (\<lambda>valid.
       if \<not> valid then done_with (Inl (Raise ValueError ''Invalid ElevenLabs API key''))
       else
     then_do (call EvGenerateAndSave
                (generate_and_save (tts_env io) tts text raw_audio_path voice_id None))
       (\<lambda>tts_result.
       if \<not> tts_success tts_result
       then done_with (Inl (Raise Exception
              (''TTS generation failed: '' @ get_or (tts_error tts_result) ''None'')))
       else
     then_do (call EvRefinerInit (configure_ffmpeg io config)) (\<lambda>_.
     then_do (call EvProcessPipeline
                (Inr (process_pipeline (refiner_env io) (audio_refinement config)
                        raw_audio_path refined_audio_path)))
       (\<lambda>refine_result.
       if \<not> result_success refine_result
       then done_with (Inl (Raise Exception
              (''Audio refinement failed: '' @ get_or (result_error refine_result) ''None'')))
       else done_with (complete_result io text raw_audio_path refined_audio_path
                         tts_result refine_result)))))))))))"

text \<open>
  \<^verbatim>\<open>generate_refined_audio\<close>: the \<^verbatim>\<open>except Exception\<close> clause turns what the body raises
  into the record of a failure. The value is \<open>Inl\<close> for an exception that reaches the
  caller and \<open>Inr\<close> for a returned record.
\<close>

definition generate_refined_audio ::
  "pipeline_io \<Rightarrow> text_arg \<Rightarrow> string option \<Rightarrow> string option \<Rightarrow> string \<Rightarrow> audio_result traced" where
  "generate_refined_audio io text voice_id output_name config_path =
     (case generate_refined_audio_try io text voice_id output_name config_path of
        (Inr r, tr) \<Rightarrow> (Inr r, tr)
      | (Inl e, tr) \<Rightarrow>
          (let error_msg = ''Pipeline failed: '' @ str_exn e
           in (Inr \<lparr>success = False, res_raw_audio = None, res_refined_audio = None,
                    metadata = None, error = Some error_msg\<rparr>, tr)))"

definition quick_generate :: "pipeline_io \<Rightarrow> text_arg \<Rightarrow> string option \<Rightarrow> audio_result traced" where
  "quick_generate io text voice_id =
     generate_refined_audio io text voice_id None ''config/config.yaml''"

section \<open>Notions of the claims\<close>

text \<open>
  The level of a buffer: its root mean square, the expression of line 162, and the same in
  decibels, the expression of line 169.
\<close>

definition rms :: "real list \<Rightarrow> real" where
  "rms xs = sqrt (np_mean (map (\<lambda>x. x\<^sup>2) xs))"





text \<open>The compressor in the words of the specification, on one sample.\<close>

definition compress_spec :: "real \<Rightarrow> real" where
  "compress_spec x = (if \<bar>x\<bar> > 0.3 then sgn x * (0.3 + (\<bar>x\<bar> - 0.3) / 3.0) else x)"

text \<open>The length after resampling in the words of the specification.\<close>

definition spec_resample_length :: "nat \<Rightarrow> nat \<Rightarrow> nat \<Rightarrow> int" where
  "spec_resample_length input_length target_rate source_rate =
     py_round (real input_length * real target_rate / real source_rate)"

text \<open>
  The surroundings let a save to \<open>output_path\<close> succeed: the directory can be made,
  the resampler returns, the file can be written and its size read.
\<close>

definition save_succeeds :: "refiner_io \<Rightarrow> string \<Rightarrow> bool" where
  "save_succeeds io output_path \<longleftrightarrow>
     mkdir_parent io output_path = Inr () \<and>
     (\<forall>ys n. \<exists>zs. signal_resample io ys n = Inr zs) \<and>
     (\<forall>ys sr st. sf_write io output_path ys sr st = Inr ()) \<and>
     (\<exists>size. getsize io output_path = Inr size)"

subsection \<open>Concrete inputs\<close>

definition demo_config :: refinement_config where
  "demo_config =
     \<lparr>noise_reduction = \<lparr>nr_enabled = True, nr_strength = 0.7\<rparr>,
      normalization = \<lparr>norm_enabled = True, norm_target_db = - 20\<rparr>,
      enhancement = \<lparr>compression = True, eq_boost = False\<rparr>,
      output_cfg = \<lparr>out_sample_rate = 16000, out_bit_depth = 16\<rparr>\<rparr>"

definition disabled_config :: refinement_config where
  "disabled_config =
     \<lparr>noise_reduction = \<lparr>nr_enabled = False, nr_strength = 0.7\<rparr>,
      normalization = \<lparr>norm_enabled = False, norm_target_db = - 20\<rparr>,
      enhancement = \<lparr>compression = False, eq_boost = False\<rparr>,
      output_cfg = \<lparr>out_sample_rate = 16000, out_bit_depth = 16\<rparr>\<rparr>"


text \<open>A noise reduction that fails, and one that returns its input.\<close>

definition failing_nr :: nr_lib where
  "failing_nr y sr prop_decrease = Inl (Raise ValueError ''unstable'')"

definition identity_nr :: nr_lib where
  "identity_nr y sr prop_decrease = Inr y"

text \<open>Surroundings in which the decoder gives a tenth of a second of silence at 16 kHz.\<close>

definition silent_segment :: audio_segment where
  "silent_segment =
     \<lparr>channels = 1, frame_rate = 16000, seg_array_type = TC_h,
      array_of_samples = replicate 1600 0\<rparr>"

definition silent_io :: refiner_io where
  "silent_io =
     \<lparr>from_file = (\<lambda>p. Inr silent_segment),
      set_channels = (\<lambda>a n. Inr a),
      nr_reduce_noise = identity_nr,
      mkdir_parent = (\<lambda>p. Inr ()),
      signal_resample = (\<lambda>ys n. Inr (replicate n 0)),
      sf_write = (\<lambda>p ys sr st. Inr ()),
      getsize = (\<lambda>p. Inr 3244),
      elapsed = 0.01\<rparr>"

text \<open>Surroundings with no configuration file.\<close>

definition offline_tts :: tts_io where
  "offline_tts =
     \<lparr>new_client = (\<lambda>k. Inr ()),
      voices_get_all = Inl (Raise OSError ''unreachable''),
      convert = (\<lambda>v t m s. Inl (Raise OSError ''unreachable'')),
      tts_mkdir_parent = (\<lambda>p. Inr ()),
      write_bytes = (\<lambda>p b. Inr ()),
      tts_getsize = (\<lambda>p. Inr 0),
      generation_elapsed = 0\<rparr>"

definition no_config_io :: pipeline_io where
  "no_config_io =
     \<lparr>read_yaml = (\<lambda>p. FileMissing),
      setup_logging = (\<lambda>c. Inr ()),
      path_mkdir = (\<lambda>d. Inr ()),
      getenv_api_key = Some ''key'',
      timestamp = ''20250101_000000'',
      path_join = (\<lambda>a b. a @ ''/'' @ b),
      tts_env = offline_tts,
      configure_ffmpeg = (\<lambda>c. Inr ()),
      refiner_env = silent_io,
      total_elapsed = 0\<rparr>"

text \<open>Surroundings with a configuration file and an API key.\<close>

definition demo_full_config :: config where
  "demo_full_config =
     \<lparr>paths = \<lparr>raw_audio = ''output/raw'', refined_audio = ''output/refined'', logs = ''logs''\<rparr>,
      elevenlabs = \<lparr>model = ''eleven_multilingual_v2'', default_voice_id = ''voice'',
                    settings = \<lparr>stability = None, similarity_boost = None, style = None,
                                 use_speaker_boost = None\<rparr>\<rparr>,
      audio_refinement = demo_config\<rparr>"

definition configured_io :: pipeline_io where
  "configured_io = no_config_io\<lparr>read_yaml := (\<lambda>p. Loaded demo_full_config)\<rparr>"

text \<open>Surroundings in which the service answers and every file operation succeeds.\<close>

definition online_tts :: tts_io where
  "online_tts =
     \<lparr>new_client = (\<lambda>k. Inr ()),
      voices_get_all = Inr 3,
      convert = (\<lambda>v t m s. Inr [73, 68, 51]),
      tts_mkdir_parent = (\<lambda>p. Inr ()),
      write_bytes = (\<lambda>p b. Inr ()),
      tts_getsize = (\<lambda>p. Inr 3),
      generation_elapsed = 1 / 2\<rparr>"

definition online_io :: pipeline_io where
  "online_io = configured_io\<lparr>tts_env := online_tts\<rparr>"

section \<open>Properties\<close>

lemma masked_select_Cons:
  "masked_select (m # ms) (x # xs) = (if m then x # masked_select ms xs else masked_select ms xs)"
  by (simp add: masked_select_def)

lemma masked_select_Nil: "masked_select [] [] = []"
  by (simp add: masked_select_def)

lemma masked_assign_map:
  "masked_assign (map p xs) xs (map f (masked_select (map p xs) xs)) =
     map (\<lambda>x. if p x then f x else x) xs"
  by (induction xs) (simp_all add: masked_select_Cons masked_select_Nil)

lemma enhance_voice_try_compress:
  "compression ec \<Longrightarrow> fst (enhance_voice_try ec xs) = Inr (map compress_spec xs)"
  by (simp add: enhance_voice_try_def Let_def masked_assign_map compress_spec_def)

lemma enhance_voice_try_no_compress:
  "\<not> compression ec \<Longrightarrow> fst (enhance_voice_try ec xs) = Inr xs"
  by (simp add: enhance_voice_try_def Let_def)

lemma compress_spec_bound:
  assumes "\<bar>x\<bar> > 0.3"
  shows "\<bar>compress_spec x\<bar> \<le> \<bar>x\<bar> \<and> sgn (compress_spec x) = sgn x"
proof -
  define a where "a = \<bar>x\<bar>"
  define c where "c = 0.3 + (a - 0.3) / 3.0"
  have a: "0.3 < a" using assms by (simp add: a_def)
  have c: "c = 0.2 + a / 3" by (simp add: c_def field_simps)
  have cpos: "0 < c" using a unfolding c by simp
  have cle: "c \<le> a" using a unfolding c by simp
  have x0: "x \<noteq> 0" using assms by auto
  have eq: "compress_spec x = sgn x * c"
    using assms by (simp add: compress_spec_def c_def a_def)
  have "\<bar>sgn x * c\<bar> = c"
    using cpos x0 by (simp add: abs_mult)
  moreover have "sgn (sgn x * c) = sgn x"
    using cpos by (simp add: sgn_mult)
  ultimately show ?thesis
    using cle eq by (simp add: a_def)
qed

text \<open>
  C3. With compression enabled, \<open>enhance_voice\<close> replaces every sample \<open>x\<close> with
  \<open>\<bar>x\<bar> > 0.3\<close> by \<open>sgn x * (0.3 + (\<bar>x\<bar> - 0.3) / 3)\<close> and leaves every other sample
  unchanged; a sample above the threshold does not grow in magnitude and keeps its sign.
\<close>

theorem enhance_voice_compression:
  assumes "compression (enhancement rc)"
  shows "fst (enhance_voice rc xs sr) = map compress_spec xs \<and>
         (\<forall>i < length xs. \<bar>xs ! i\<bar> > 0.3 \<longrightarrow>
            fst (enhance_voice rc xs sr) ! i = sgn (xs ! i) * (0.3 + (\<bar>xs ! i\<bar> - 0.3) / 3.0) \<and>
            \<bar>fst (enhance_voice rc xs sr) ! i\<bar> \<le> \<bar>xs ! i\<bar> \<and>
            sgn (fst (enhance_voice rc xs sr) ! i) = sgn (xs ! i)) \<and>
         (\<forall>i < length xs. \<bar>xs ! i\<bar> \<le> 0.3 \<longrightarrow> fst (enhance_voice rc xs sr) ! i = xs ! i)"
proof -
  have out: "fst (enhance_voice rc xs sr) = map compress_spec xs"
    using assms enhance_voice_try_compress [of "enhancement rc" xs]
    by (auto simp: enhance_voice_def Let_def split: prod.splits sum.splits)
  have above: "map compress_spec xs ! i = sgn (xs ! i) * (0.3 + (\<bar>xs ! i\<bar> - 0.3) / 3.0) \<and>
               \<bar>map compress_spec xs ! i\<bar> \<le> \<bar>xs ! i\<bar> \<and>
               sgn (map compress_spec xs ! i) = sgn (xs ! i)"
    if "i < length xs" "\<bar>xs ! i\<bar> > 0.3" for i
    using that compress_spec_bound [of "xs ! i"] by (simp add: compress_spec_def)
  have below: "map compress_spec xs ! i = xs ! i" if "i < length xs" "\<bar>xs ! i\<bar> \<le> 0.3" for i
    using that by (simp add: compress_spec_def)
  show ?thesis
    unfolding out using above below by blast
qed

theorem enhance_voice_compression_witness:
  "compression (enhancement demo_config) \<and>
   fst (enhance_voice demo_config [0.9, - 0.6, 0.2] 16000) = [0.5, - 0.4, 0.2]"
proof -
  have c: "compression (enhancement demo_config)" by (simp add: demo_config_def)
  have "map compress_spec [0.9, - 0.6, 0.2] = [0.5, - 0.4, 0.2]"
    by (simp add: compress_spec_def)
  then show ?thesis
    using c enhance_voice_compression [OF c, of "[0.9, - 0.6, 0.2]" 16000] by simp
qed

subsection \<open>Volume normalization\<close>






lemma np_max_abs_nonneg: "xs \<noteq> [] \<Longrightarrow> 0 \<le> np_max_abs xs"
proof -
  assume "xs \<noteq> []"
  then have "\<bar>hd xs\<bar> \<in> set (map abs xs)" by (cases xs) auto
  then have "\<bar>hd xs\<bar> \<le> np_max_abs xs" unfolding np_max_abs_def by (intro Max_ge) auto
  then show ?thesis by linarith
qed







subsection \<open>Volume normalization in floating point\<close>

lemma normalize_volume_try_float_exact:
  "normalize_volume_try_float exact_ops rc xs t = normalize_volume_try rc xs t"
  by (simp add: normalize_volume_try_float_def normalize_volume_try_def float_rms_def
        float_gain_db_def float_gain_linear_def float_gained_def float_clip_def exact_ops_def
        Let_def)

lemma normalize_volume_float_exact:
  "normalize_volume_float exact_ops rc xs t = normalize_volume rc xs t"
  by (simp add: normalize_volume_float_def normalize_volume_def normalize_volume_try_float_exact)







lemma normalize_volume_float_silent:
  assumes "norm_enabled (normalization rc)" and "xs = [] \<or> float_rms ops xs = 0"
  shows "fst (normalize_volume_float ops rc xs t) = xs"
  using assms
  by (auto simp: normalize_volume_float_def normalize_volume_try_float_def Let_def)

lemma normalize_volume_float_ignores_target_db:
  "normalize_volume_float ops rc xs t1 = normalize_volume_float ops rc xs t2"
  by (simp add: normalize_volume_float_def normalize_volume_try_float_def)


























subsection \<open>Resampling\<close>

lemma num_samples_div: "num_samples len target_sr sample_rate = (len * target_sr) div sample_rate"
  unfolding num_samples_def by (simp only: floor_divide_of_nat_eq nat_int)

lemma py_round_floor: "\<lfloor>x\<rfloor> \<le> py_round x \<and> py_round x \<le> \<lfloor>x\<rfloor> + 1"
  by (simp add: py_round_def Let_def)

lemma num_samples_near_round:
  "int (num_samples len target_sr sample_rate) \<le> spec_resample_length len target_sr sample_rate \<and>
   spec_resample_length len target_sr sample_rate \<le> int (num_samples len target_sr sample_rate) + 1"
proof -
  have nn: "0 \<le> real (len * target_sr) / real sample_rate" by simp
  have "int (num_samples len target_sr sample_rate) = \<lfloor>real (len * target_sr) / real sample_rate\<rfloor>"
    unfolding num_samples_def using nn by simp
  then show ?thesis
    using py_round_floor [of "real (len * target_sr) / real sample_rate"]
    by (simp add: spec_resample_length_def)
qed

lemma save_refined_try_rate:
  assumes "save_refined_try io rc xs sr out = Inr r"
  shows "sv_sample_rate r = Some (out_sample_rate (output_cfg rc))"
  using assms
  by (auto simp: save_refined_try_def save_refined_resample_def bind_exn_def Let_def
           split: sum.splits if_splits prod.splits)

text \<open>
  C2, as amended. When the rate of the buffer equals the target rate, the resampling of
  \<open>save_refined\<close> leaves the buffer and its rate as they are. Otherwise the resampler is
  asked for \<open>int(len * target_rate / source_rate)\<close> samples, the quotient truncated and
  not rounded; with a resampler that returns as many samples as asked, the new buffer has
  that length, which is within one sample of the rounded quotient, and its rate is the
  target rate. The rate recorded by a save that succeeds is the target rate.
\<close>

theorem save_refined_resample_length:
  "(sample_rate = target_sr \<longrightarrow>
      save_refined_resample resample target_sr xs sample_rate = Inr (xs, sample_rate)) \<and>
   (sample_rate \<noteq> target_sr \<and> sample_rate \<noteq> 0 \<and>
    resample xs (num_samples (length xs) target_sr sample_rate) = Inr ys \<and>
    length ys = num_samples (length xs) target_sr sample_rate \<longrightarrow>
      save_refined_resample resample target_sr xs sample_rate = Inr (ys, target_sr) \<and>
      length ys = (length xs * target_sr) div sample_rate \<and>
      int (length ys) \<le> spec_resample_length (length xs) target_sr sample_rate \<and>
      spec_resample_length (length xs) target_sr sample_rate \<le> int (length ys) + 1) \<and>
   (sv_success (save_refined io rc xs sample_rate out) \<longrightarrow>
      sv_sample_rate (save_refined io rc xs sample_rate out) = Some (out_sample_rate (output_cfg rc)))"
proof (intro conjI impI)
  assume "sample_rate = target_sr"
  then show "save_refined_resample resample target_sr xs sample_rate = Inr (xs, sample_rate)"
    by (simp add: save_refined_resample_def)
next
  assume a: "sample_rate \<noteq> target_sr \<and> sample_rate \<noteq> 0 \<and>
    resample xs (num_samples (length xs) target_sr sample_rate) = Inr ys \<and>
    length ys = num_samples (length xs) target_sr sample_rate"
  then show "save_refined_resample resample target_sr xs sample_rate = Inr (ys, target_sr)"
    by (simp add: save_refined_resample_def bind_exn_def)
  from a show "length ys = (length xs * target_sr) div sample_rate"
    by (simp add: num_samples_div)
  from a show "int (length ys) \<le> spec_resample_length (length xs) target_sr sample_rate"
    using num_samples_near_round [of "length xs" target_sr sample_rate] by simp
  from a show "spec_resample_length (length xs) target_sr sample_rate \<le> int (length ys) + 1"
    using num_samples_near_round [of "length xs" target_sr sample_rate] by simp
next
  assume s: "sv_success (save_refined io rc xs sample_rate out)"
  show "sv_sample_rate (save_refined io rc xs sample_rate out) = Some (out_sample_rate (output_cfg rc))"
  proof (cases "save_refined_try io rc xs sample_rate out")
    case (Inl e)
    then show ?thesis using s by (simp add: save_refined_def)
  next
    case (Inr r)
    then show ?thesis using save_refined_try_rate [OF Inr] by (simp add: save_refined_def)
  qed
qed

theorem save_refined_resample_length_witness:
  "save_refined_resample (\<lambda>ys n. Inr (replicate n 0)) 16000 [0.1, 0.2] 16000 = Inr ([0.1, 0.2], 16000) \<and>
   save_refined_resample (\<lambda>ys n. Inr (replicate n 0)) 16000 [0.1, 0.2, 0.3, 0.2, 0.1] 44100
     = Inr ([0], 16000) \<and>
   sv_sample_rate (save_refined silent_io demo_config [0.1, 0.2, 0.3, 0.2, 0.1] 44100 ''out.wav'')
     = Some 16000"
proof -
  have n: "num_samples (length [0.1, 0.2, 0.3, 0.2, 0.1 :: real]) 16000 44100 = 1"
    by (simp add: num_samples_div)
  have s: "sv_success (save_refined silent_io demo_config [0.1, 0.2, 0.3, 0.2, 0.1] 44100 ''out.wav'')"
    using n
    by (simp add: save_refined_def save_refined_try_def save_refined_resample_def bind_exn_def
          silent_io_def demo_config_def)
  have t: "out_sample_rate (output_cfg demo_config) = 16000" by (simp add: demo_config_def)
  have a: "save_refined_resample (\<lambda>ys n. Inr (replicate n 0)) 16000 [0.1, 0.2] 16000
             = Inr ([0.1, 0.2], 16000)"
    using save_refined_resample_length [of 16000 16000 "\<lambda>ys n. Inr (replicate n 0)" "[0.1, 0.2]"
        "[]" silent_io demo_config "''out.wav''"]
    by blast
  have b: "save_refined_resample (\<lambda>ys n. Inr (replicate n 0)) 16000 [0.1, 0.2, 0.3, 0.2, 0.1] 44100
             = Inr ([0], 16000) \<and>
           sv_sample_rate (save_refined silent_io demo_config [0.1, 0.2, 0.3, 0.2, 0.1] 44100 ''out.wav'')
             = Some 16000"
    using s n t
      save_refined_resample_length [of 44100 16000 "\<lambda>ys n. Inr (replicate n 0)"
        "[0.1, 0.2, 0.3, 0.2, 0.1]" "[0]" silent_io demo_config "''out.wav''"]
    by simp
  show ?thesis using a b by simp
qed

text \<open>
  C2 as stated fails: five samples at 44100 Hz saved at 16000 Hz give
  \<open>int(5 * 16000 / 44100) = int(1.81...) = 1\<close> sample, where the rounded quotient is 2.
\<close>

theorem resample_length_counterexample:
  "num_samples 5 16000 44100 = 1 \<and> spec_resample_length 5 16000 44100 = 2"
proof -
  have "num_samples 5 16000 44100 = 1" by (simp add: num_samples_div)
  moreover have "spec_resample_length 5 16000 44100 = 2"
  proof -
    have f: "\<lfloor>(800 / 441 :: real)\<rfloor> = 1" by (simp add: floor_eq_iff)
    show ?thesis by (simp add: spec_resample_length_def py_round_def Let_def f)
  qed
  ultimately show ?thesis by simp
qed

subsection \<open>Silent input, disabled stages, failing stages\<close>

lemma np_mean_zeros: "\<forall>x\<in>set xs. x = 0 \<Longrightarrow> np_mean (map (\<lambda>x. x\<^sup>2) xs) = 0"
proof -
  assume "\<forall>x\<in>set xs. x = 0"
  then have "sum_list (map (\<lambda>x. x\<^sup>2) xs) = 0"
    by (induction xs) simp_all
  then show ?thesis by (simp add: np_mean_def)
qed

lemma load_audio_rate: "load_audio ff sc p = Inr (xs, sr) \<Longrightarrow> sr \<noteq> 0"
  by (auto simp: load_audio_def Let_def split: sum.splits if_splits)

lemma save_refined_try_succeeds:
  assumes "save_succeeds io out" and "out_sample_rate (output_cfg rc) \<noteq> 0" and "sr \<noteq> 0"
  shows "\<exists>r. save_refined_try io rc ys sr out = Inr r \<and> sv_success r"
proof -
  obtain size where g: "getsize io out = Inr size"
    using assms(1) by (auto simp: save_succeeds_def)
  have m: "mkdir_parent io out = Inr ()"
    using assms(1) by (simp add: save_succeeds_def)
  have w: "sf_write io out zs r st = Inr ()" for zs r st
    using assms(1) by (simp add: save_succeeds_def)
  show ?thesis
  proof (cases "sr = out_sample_rate (output_cfg rc)")
    case True
    then show ?thesis
      using assms(2)
      by (simp add: save_refined_try_def save_refined_resample_def bind_exn_def Let_def g m w)
  next
    case False
    obtain zs where z: "signal_resample io ys
        (num_samples (length ys) (out_sample_rate (output_cfg rc)) sr) = Inr zs"
      using assms(1) unfolding save_succeeds_def by blast
    show ?thesis
      using False assms(2,3)
      by (simp add: save_refined_try_def save_refined_resample_def bind_exn_def Let_def g m w z)
  qed
qed

lemma process_pipeline_succeeds:
  assumes l: "load_audio (from_file io) (set_channels io) inp = Inr (xs, sr)"
    and s: "save_succeeds io out" and t: "out_sample_rate (output_cfg rc) \<noteq> 0"
  shows "result_success (process_pipeline io rc inp out)"
proof -
  have sr: "sr \<noteq> 0" using load_audio_rate [OF l] .
  obtain r where r: "save_refined_try io rc (fst (refine_stages (nr_reduce_noise io) rc xs sr)) sr out = Inr r"
    and ok: "sv_success r"
    using save_refined_try_succeeds [OF s t sr] by blast
  have rate: "sv_sample_rate r = Some (out_sample_rate (output_cfg rc))"
    using save_refined_try_rate [OF r] .
  show ?thesis
    using ok rate
    by (simp add: process_pipeline_def process_pipeline_try_def bind_exn_def l Let_def
          save_refined_def r)
qed

text \<open>
  C4. For a buffer of zeros with normalization enabled, \<open>normalize_volume\<close> returns the
  buffer unchanged. When the buffer has a sample, the \<^verbatim>\<open>try\<close> block returns at the test
  \<open>rms == 0\<close>, before the logarithm and the division by the level: it raises nothing, and
  the log holds the warning of that branch, not the one of a failure. The pipeline on such
  a decoded buffer succeeds whenever the save does.
\<close>

theorem normalize_volume_silent:
  assumes "norm_enabled (normalization rc)" and "\<forall>x\<in>set xs. x = 0"
  shows "fst (normalize_volume rc xs t) = xs \<and>
         (xs \<noteq> [] \<longrightarrow>
            normalize_volume_try rc xs t =
              (Inr xs, [(INFO, NormalizingVolume (norm_target_db (normalization rc))),
                        (WARNING, RmsZeroSkipping)]) \<and>
            normalize_volume rc xs t =
              (xs, [(INFO, NormalizingVolume (norm_target_db (normalization rc))),
                    (WARNING, RmsZeroSkipping)])) \<and>
         (load_audio (from_file io) (set_channels io) inp = Inr (xs, sr) \<and>
          save_succeeds io out \<and> out_sample_rate (output_cfg rc) \<noteq> 0 \<longrightarrow>
            result_success (process_pipeline io rc inp out))"
proof -
  have z: "sqrt (np_mean (map (\<lambda>x. x\<^sup>2) xs)) = 0"
    using np_mean_zeros [OF assms(2)] by simp
  have a: "normalize_volume_try rc xs t =
           (Inr xs, [(INFO, NormalizingVolume (norm_target_db (normalization rc))),
                     (WARNING, RmsZeroSkipping)])" if "xs \<noteq> []"
    using that by (simp add: normalize_volume_try_def Let_def z)
  have b: "normalize_volume rc xs t =
           (xs, [(INFO, NormalizingVolume (norm_target_db (normalization rc))),
                 (WARNING, RmsZeroSkipping)])" if "xs \<noteq> []"
    using assms(1) a [OF that] by (simp add: normalize_volume_def)
  have c: "fst (normalize_volume rc xs t) = xs"
  proof (cases "xs = []")
    case True
    then show ?thesis
      using assms(1) by (simp add: normalize_volume_def normalize_volume_try_def)
  next
    case False
    then show ?thesis using b by simp
  qed
  show ?thesis
    using a b c process_pipeline_succeeds [of io inp xs sr out rc] by blast
qed

lemma load_silent: "load_audio (from_file silent_io) (set_channels silent_io) ''in.mp3'' =
    Inr (replicate 1600 0, 16000)"
  by (simp add: load_audio_def silent_io_def silent_segment_def normalize_samples_def)

theorem normalize_volume_silent_witness:
  "norm_enabled (normalization demo_config) \<and> replicate 1600 (0::real) \<noteq> [] \<and>
   fst (normalize_volume demo_config (replicate 1600 0) (- 18)) = replicate 1600 0 \<and>
   result_success (process_pipeline silent_io demo_config ''in.mp3'' ''out.wav'')"
proof -
  have en: "norm_enabled (normalization demo_config)" by (simp add: demo_config_def)
  have ne: "replicate 1600 (0::real) \<noteq> []" by simp
  have z: "\<forall>x\<in>set (replicate 1600 (0::real)). x = 0" by simp
  have s: "save_succeeds silent_io ''out.wav''"
    by (simp add: save_succeeds_def silent_io_def)
  have t: "out_sample_rate (output_cfg demo_config) \<noteq> 0" by (simp add: demo_config_def)
  show ?thesis
    using en ne s t load_silent
      normalize_volume_silent [OF en z, of "- 18" silent_io "''in.mp3''" 16000 "''out.wav''"]
    by simp
qed

lemma refine_stages_fst:
  "fst (refine_stages nr rc xs sr) =
     fst (enhance_voice rc
            (fst (normalize_volume rc (fst (reduce_noise nr rc xs sr))
                    (norm_target_db (normalization rc)))) sr)"
  by (simp add: refine_stages_def Let_def split: prod.splits)

text \<open>
  C5. With noise reduction, normalization, compression and EQ boost all disabled, each
  stage returns its input, and the buffer after the three stages is the decoded buffer.
\<close>

theorem disabled_stages_identity:
  assumes "\<not> nr_enabled (noise_reduction rc)" and "\<not> norm_enabled (normalization rc)"
    and "\<not> compression (enhancement rc)" and "\<not> eq_boost (enhancement rc)"
  shows "fst (reduce_noise nr rc xs sr) = xs \<and>
         fst (normalize_volume rc xs t) = xs \<and>
         fst (enhance_voice rc xs sr) = xs \<and>
         fst (refine_stages nr rc xs sr) = xs"
  using assms
  by (simp add: refine_stages_fst reduce_noise_def normalize_volume_def enhance_voice_def)

theorem disabled_stages_identity_witness:
  "\<not> nr_enabled (noise_reduction disabled_config) \<and>
   \<not> norm_enabled (normalization disabled_config) \<and>
   \<not> compression (enhancement disabled_config) \<and> \<not> eq_boost (enhancement disabled_config) \<and>
   fst (refine_stages failing_nr disabled_config [0.9, - 0.6, 0.2] 44100) = [0.9, - 0.6, 0.2]"
proof -
  have a: "\<not> nr_enabled (noise_reduction disabled_config)"
    and b: "\<not> norm_enabled (normalization disabled_config)"
    and c: "\<not> compression (enhancement disabled_config)"
    and d: "\<not> eq_boost (enhancement disabled_config)"
    by (simp_all add: disabled_config_def)
  show ?thesis
    using a b c d disabled_stages_identity [OF a b c d, of failing_nr "[0.9, - 0.6, 0.2]" 44100 0]
    by simp
qed



text \<open>
  C10. The result of \<open>normalize_volume\<close> does not depend on its argument \<open>target_db\<close>: the
  configured value replaces it before its first use.
\<close>

theorem normalize_volume_ignores_target_db:
  "normalize_volume rc xs t1 = normalize_volume rc xs t2 \<and>
   normalize_volume_try rc xs t1 = normalize_volume_try rc xs t2"
  by (simp add: normalize_volume_def normalize_volume_try_def)

theorem normalize_volume_ignores_target_db_witness:
  "normalize_volume demo_config [1 / 2, - (1 / 2)] (- 18) =
   normalize_volume demo_config [1 / 2, - (1 / 2)] 0"
  using normalize_volume_ignores_target_db [of demo_config "[1 / 2, - (1 / 2)]" "- 18" 0]
  by simp

subsection \<open>Decoding\<close>

text \<open>
  C9 fails on the code. \<open>load_audio\<close> divides by the greatest value of the sample type
  and not by the greatest magnitude: the 16-bit sample -32768 becomes -32768/32767, which
  is below -1.
\<close>

theorem load_audio_below_minus_one:
  "iinfo_min TC_h = - 32768 \<and>
   load_audio
     (\<lambda>p. Inr \<lparr>channels = 1, frame_rate = 44100, seg_array_type = TC_h,
               array_of_samples = [- 32768, 0, 32767]\<rparr>)
     (\<lambda>a n. Inr a) ''in.mp3''
   = Inr ([- (32768 / 32767), 0, 1], 44100) \<and>
   - (32768 / 32767) < (- 1 :: real)"
  by (simp add: load_audio_def normalize_samples_def)

subsection \<open>The entry points\<close>

lemma validate_text_input_rejects:
  assumes "length (strip t) = 0 \<or> length (strip t) > 5000"
  shows "\<exists>e. validate_text_input (Str t) 1 5000 = Inl e"
  using assms by (auto simp: validate_text_input_def Let_def)

lemma then_do_Inl: "then_do (call ev (Inl e)) f = (Inl e, [ev])"
  by (simp add: then_do_def call_def)

lemma then_do_Inr: "then_do (call ev (Inr a)) f = (fst (f a), ev # snd (f a))"
  by (simp add: then_do_def call_def split: prod.splits)

lemma invalid_text_try:
  assumes "validate_text_input text 1 5000 = Inl e"
  shows "\<exists>e' tr. generate_refined_audio_try io text voice_id output_name config_path = (Inl e', tr) \<and>
           set tr \<subseteq> {EvLoadConfig, EvSetupLogging, EvSetupDirectories, EvLoadEnvVariables,
                      EvValidateTextInput}"
proof (cases "load_config (read_yaml io) config_path")
  case (Inl a)
  then show ?thesis by (simp add: generate_refined_audio_try_def then_do_Inl)
next
  case c: (Inr config)
  show ?thesis
  proof (cases "setup_logging io config")
    case (Inl a)
    then show ?thesis by (simp add: generate_refined_audio_try_def c then_do_Inl then_do_Inr)
  next
    case l: (Inr u)
    show ?thesis
    proof (cases "setup_directories (path_mkdir io) config")
      case (Inl a)
      then show ?thesis
        by (simp add: generate_refined_audio_try_def c l then_do_Inl then_do_Inr)
    next
      case d: (Inr u')
      show ?thesis
      proof (cases "load_env_variables (getenv_api_key io)")
        case (Inl a)
        then show ?thesis
          by (simp add: generate_refined_audio_try_def c l d then_do_Inl then_do_Inr)
      next
        case (Inr api_key)
        then show ?thesis
          using assms
          by (simp add: generate_refined_audio_try_def c l d then_do_Inl then_do_Inr)
      qed
    qed
  qed
qed


lemma generate_refined_audio_failure:
  assumes "generate_refined_audio_try io text voice_id output_name config_path = (Inl e, tr)"
  shows "generate_refined_audio io text voice_id output_name config_path =
           (Inr \<lparr>success = False, res_raw_audio = None, res_refined_audio = None,
                 metadata = None, error = Some (''Pipeline failed: '' @ str_exn e)\<rparr>, tr)"
  using assms by (simp add: generate_refined_audio_def)

text \<open>
  C7. For a text whose length after trimming is 0 or more than 5000, the validation
  raises; \<open>generate_refined_audio\<close> and \<open>quick_generate\<close> return a record with
  \<open>success = False\<close>, and the calls made stop at the validation at the latest: the TTS
  client is not constructed and neither \<open>validate_api_key\<close> nor \<open>generate_and_save\<close> is
  called.
\<close>

theorem invalid_text_no_network:
  assumes "length (strip t) = 0 \<or> length (strip t) > 5000"
  shows "(\<exists>e. validate_text_input (Str t) 1 5000 = Inl e) \<and>
         (\<exists>r. fst (generate_refined_audio io (Str t) voice_id output_name config_path) = Inr r \<and>
              \<not> success r) \<and>
         set (snd (generate_refined_audio io (Str t) voice_id output_name config_path))
           \<subseteq> {EvLoadConfig, EvSetupLogging, EvSetupDirectories, EvLoadEnvVariables,
              EvValidateTextInput} \<and>
         (\<exists>r. fst (quick_generate io (Str t) voice_id) = Inr r \<and> \<not> success r) \<and>
         EvTTSInit \<notin> set (snd (quick_generate io (Str t) voice_id)) \<and>
         EvValidateApiKey \<notin> set (snd (quick_generate io (Str t) voice_id)) \<and>
         EvGenerateAndSave \<notin> set (snd (quick_generate io (Str t) voice_id))"
proof -
  obtain e where v: "validate_text_input (Str t) 1 5000 = Inl e"
    using validate_text_input_rejects [OF assms] by blast
  have g: "(\<exists>r. fst (generate_refined_audio io (Str t) voice_id on cp) = Inr r \<and> \<not> success r) \<and>
           set (snd (generate_refined_audio io (Str t) voice_id on cp))
             \<subseteq> {EvLoadConfig, EvSetupLogging, EvSetupDirectories, EvLoadEnvVariables,
                EvValidateTextInput}" for on cp
  proof -
    obtain e' tr where b: "generate_refined_audio_try io (Str t) voice_id on cp = (Inl e', tr)"
      and tr: "set tr \<subseteq> {EvLoadConfig, EvSetupLogging, EvSetupDirectories, EvLoadEnvVariables,
                        EvValidateTextInput}"
      using invalid_text_try [OF v] by blast
    show ?thesis
      using tr by (simp add: generate_refined_audio_failure [OF b])
  qed
  have q: "set (snd (quick_generate io (Str t) voice_id))
             \<subseteq> {EvLoadConfig, EvSetupLogging, EvSetupDirectories, EvLoadEnvVariables,
                EvValidateTextInput}"
    using g by (simp add: quick_generate_def)
  have "EvTTSInit \<notin> set (snd (quick_generate io (Str t) voice_id)) \<and>
        EvValidateApiKey \<notin> set (snd (quick_generate io (Str t) voice_id)) \<and>
        EvGenerateAndSave \<notin> set (snd (quick_generate io (Str t) voice_id))"
    using q by auto
  then show ?thesis
    using v g [of output_name config_path] g [of None "''config/config.yaml''"]
    by (simp add: quick_generate_def)
qed

lemma strip_As: "strip (replicate 6000 65) = replicate 6000 65"
  by (simp add: strip_def isspace_def)

lemma str_int_5000: "str_int 5000 = ''5000''"
  by (simp add: str_int_def digit_char_def)

lemma str_int_1: "str_int 1 = ''1''"
  by (simp add: str_int_def digit_char_def)

lemma validate_long: "validate_text_input (Str (replicate 6000 65)) 1 5000 =
   Inl (Raise ValueError ''Text too long. Maximum 5000 characters allowed'')"
  by (simp add: validate_text_input_def strip_As Let_def str_int_5000 del: str_nat.simps)

lemma validate_blank: "validate_text_input (Str [32, 10, 9]) 1 5000 =
   Inl (Raise ValueError ''Text too short. Minimum 1 characters required'')"
  by (simp add: validate_text_input_def strip_def isspace_def Let_def str_int_1 del: str_nat.simps)

lemma validate_empty: "validate_text_input (Str []) 1 5000 =
   Inl (Raise ValueError ''Text must be a non-empty string'')"
  by (simp add: validate_text_input_def)

lemma validate_trims: "validate_text_input (Str [32, 72, 105, 10]) 1 5000 = Inr [72, 105]"
  by (simp add: validate_text_input_def strip_def isspace_def Let_def del: str_nat.simps)

lemma quick_generate_long:
  "quick_generate configured_io (Str (replicate 6000 65)) None =
   (Inr \<lparr>success = False, res_raw_audio = None, res_refined_audio = None, metadata = None,
          error = Some ''Pipeline failed: Text too long. Maximum 5000 characters allowed''\<rparr>,
    [EvLoadConfig, EvSetupLogging, EvSetupDirectories, EvLoadEnvVariables, EvValidateTextInput])"
  by (simp add: quick_generate_def generate_refined_audio_def generate_refined_audio_try_def
        then_do_def call_def validate_long configured_io_def no_config_io_def load_config_def
        load_env_variables_def setup_directories_def bind_exn_def)

theorem invalid_text_no_network_witness:
  "length (strip (replicate 6000 65)) > 5000 \<and>
   (\<exists>r. fst (quick_generate configured_io (Str (replicate 6000 65)) None) = Inr r \<and> \<not> success r) \<and>
   snd (quick_generate configured_io (Str (replicate 6000 65)) None) =
     [EvLoadConfig, EvSetupLogging, EvSetupDirectories, EvLoadEnvVariables, EvValidateTextInput] \<and>
   EvTTSInit \<notin> set (snd (quick_generate configured_io (Str (replicate 6000 65)) None)) \<and>
   EvValidateApiKey \<notin> set (snd (quick_generate configured_io (Str (replicate 6000 65)) None)) \<and>
   EvGenerateAndSave \<notin> set (snd (quick_generate configured_io (Str (replicate 6000 65)) None))"
proof -
  have h: "length (strip (replicate 6000 65)) = 0 \<or> length (strip (replicate 6000 65)) > 5000"
    by (simp add: strip_As)
  have l: "length (strip (replicate 6000 65)) > 5000"
    by (simp add: strip_As)
  have tr: "snd (quick_generate configured_io (Str (replicate 6000 65)) None) =
     [EvLoadConfig, EvSetupLogging, EvSetupDirectories, EvLoadEnvVariables, EvValidateTextInput]"
    by (simp add: quick_generate_long)
  show ?thesis
    using l tr invalid_text_no_network [OF h, of configured_io None None "''config/config.yaml''"]
    by blast
qed




lemma process_pipeline_shape:
  assumes "result_success (process_pipeline io rc inp out)"
  shows "\<exists>r rm. process_pipeline io rc inp out = PipelineDict r \<and> rf_metadata r = Some rm"
  using assms
  by (auto simp: process_pipeline_def process_pipeline_try_def bind_exn_def Let_def
           split: sum.splits prod.splits if_splits option.splits)

lemma generate_and_save_shape:
  assumes "generate_and_save io self txt p v st = Inr res" and "tts_success res"
  shows "\<exists>c. res = CombinedDict c"
  using assms
  by (auto simp: generate_and_save_def Let_def split: if_splits option.splits prod.splits)

lemma complete_result_returns:
  assumes "generate_and_save tio self txt p v st = Inr res" and "tts_success res"
    and "result_success (process_pipeline rio rc inp out)"
  shows "\<exists>r. complete_result io txt raw refined res (process_pipeline rio rc inp out) = Inr r \<and>
             success r"
proof -
  obtain c where c: "res = CombinedDict c"
    using generate_and_save_shape [OF assms(1,2)] by blast
  obtain r rm where r: "process_pipeline rio rc inp out = PipelineDict r"
    and rm: "rf_metadata r = Some rm"
    using process_pipeline_shape [OF assms(3)] by blast
  show ?thesis by (simp add: complete_result_def c r rm)
qed

lemma quick_generate_online:
  "\<exists>r. quick_generate online_io (Str [72, 105]) None =
     (Inr r, [EvLoadConfig, EvSetupLogging, EvSetupDirectories, EvLoadEnvVariables,
              EvValidateTextInput, EvTTSInit, EvValidateApiKey, EvGenerateAndSave,
              EvRefinerInit, EvProcessPipeline]) \<and> success r"
proof -
  have v: "validate_text_input (Str [72, 105]) 1 5000 = Inr [72, 105]"
    by (simp add: validate_text_input_def strip_def isspace_def Let_def del: str_nat.simps)
  define tts where "tts = \<lparr>tts_api_key = ''key'', tts_model = ''eleven_multilingual_v2'',
      tts_default_voice_id = ''voice'',
      tts_voice_settings = \<lparr>stability = None, similarity_boost = None, style = None,
                             use_speaker_boost = None\<rparr>\<rparr>"
  have i: "tts_init online_tts ''key'' demo_full_config = Inr tts"
    by (simp add: tts_init_def online_tts_def bind_exn_def demo_full_config_def tts_def)
  have k: "validate_api_key online_tts"
    by (simp add: validate_api_key_def online_tts_def)
  obtain res where g: "generate_and_save online_tts tts [72, 105] ''output/raw/audio_20250101_000000.mp3''
      None None = Inr res" and gs: "tts_success res"
    by (simp add: generate_and_save_def generate_audio_def save_audio_def online_tts_def
          bind_exn_def Let_def)
  have p: "result_success (process_pipeline silent_io demo_config
      ''output/raw/audio_20250101_000000.mp3'' ''output/refined/audio_20250101_000000.wav'')"
  proof (rule process_pipeline_succeeds)
    show "load_audio (from_file silent_io) (set_channels silent_io)
        ''output/raw/audio_20250101_000000.mp3'' = Inr (replicate 1600 0, 16000)"
      by (simp add: load_audio_def silent_io_def silent_segment_def normalize_samples_def)
    show "save_succeeds silent_io ''output/refined/audio_20250101_000000.wav''"
      by (simp add: save_succeeds_def silent_io_def)
    show "out_sample_rate (output_cfg demo_config) \<noteq> 0"
      by (simp add: demo_config_def)
  qed
  obtain r where r: "complete_result online_io [72, 105] ''output/raw/audio_20250101_000000.mp3''
      ''output/refined/audio_20250101_000000.wav'' res
      (process_pipeline silent_io demo_config
      ''output/raw/audio_20250101_000000.mp3'' ''output/refined/audio_20250101_000000.wav'') = Inr r"
    and s: "success r"
    using complete_result_returns [OF g gs p] by blast
  have "quick_generate online_io (Str [72, 105]) None =
     (Inr r, [EvLoadConfig, EvSetupLogging, EvSetupDirectories, EvLoadEnvVariables,
              EvValidateTextInput, EvTTSInit, EvValidateApiKey, EvGenerateAndSave,
              EvRefinerInit, EvProcessPipeline])"
    using i k g gs p r
    by (simp add: quick_generate_def generate_refined_audio_def generate_refined_audio_try_def
          then_do_def call_def done_with_def v online_io_def configured_io_def no_config_io_def
          load_config_def load_env_variables_def setup_directories_def bind_exn_def
          demo_full_config_def)
  then show ?thesis using s by blast
qed



end
